theory Spec2Isabelle
  imports Complex_Main
begin

section \<open>The financial projection of the solar audit\<close>

text \<open>
  This theory embeds \<^verbatim>\<open>SolarAudit.calculate_detailed_financials\<close> of
  \<^verbatim>\<open>src/sunerdsapp.py\<close> (lines 183 to 268) together with the table
  \<^verbatim>\<open>financial_data\<close> it reads (lines 64 to 78 and 164 to 181).

  Numbers. Python computes with binary floating point; the embedding computes with exact
  real numbers, so that \<open>+\<close>, \<open>*\<close> and \<open>/\<close> are the mathematical operations, \<open>**\<close>
  on a positive base is \<open>powr\<close>, and \<^verbatim>\<open>round(x, n)\<close> is rounding to \<open>n\<close> decimal
  places with ties going to the even neighbour. Float overflow and float rounding error
  are therefore outside the model. Integers of the program are \<open>int\<close>.

  Errors. A raised exception is the \<open>Inl\<close> branch of a sum type.

  The method \<^verbatim>\<open>calculate_solar_potential\<close>, called at line 199, is not defined
  anywhere in the source file. The model takes it as a parameter: a function from the
  property id to either an error or the value of \<^verbatim>\<open>annual_potential_kwh\<close>.
\<close>

subsection \<open>Errors and arithmetic of the host language\<close>

datatype py_error = ValueError string | ZeroDivisionError | Exception string

definition py_truediv :: "real \<Rightarrow> real \<Rightarrow> py_error + real" where
  "py_truediv a b = (if b = 0 then Inl ZeroDivisionError else Inr (a / b))"

text \<open>Rounding of a real to the nearest integer, ties to the even neighbour.\<close>

definition round_half_even :: "real \<Rightarrow> int" where
  "round_half_even z =
     (let f = \<lfloor>z\<rfloor>; d = z - of_int f
      in if d < 1 / 2 then f
         else if 1 / 2 < d then f + 1
         else if even f then f else f + 1)"

text \<open>
  \<^verbatim>\<open>round(x, ndigits)\<close> for \<open>ndigits \<ge> 0\<close>, on the exact value. Python rounds the
  binary float that stands for the value, so where the exact value lies on a decimal tie
  (as \<open>0.995\<close> does for two places) or within float error of one, the program may
  record the neighbour on the other side. Two properties do not depend on this and hold
  for both: rounding is monotone, and the result is within half a unit of the last place
  of its argument. The general statements about recorded values below rest on these two
  properties only; the concrete values that are evaluated are away from ties.
\<close>

definition py_round :: "real \<Rightarrow> nat \<Rightarrow> real" where
  "py_round x ndigits = of_int (round_half_even (x * 10 ^ ndigits)) / 10 ^ ndigits"

subsection \<open>The table \<^verbatim>\<open>financial_data\<close>\<close>

text \<open>
  The columns in the order of the \<^verbatim>\<open>CREATE TABLE\<close> statement (lines 65 to 77).
  Each field carries the prefix \<open>col_\<close>. A timestamp is a point of a
  discrete clock.
\<close>

record financial_data_row =
  col_id :: int
  col_property_id :: int
  col_electricity_rate :: real
  col_installation_cost_per_watt :: real
  col_incentives :: real
  col_financing_rate :: real
  col_financing_term :: int
  col_maintenance_cost_annual :: real
  col_electricity_price_increase :: real
  col_timestamp :: nat

text \<open>
  \<^verbatim>\<open>SELECT *\<close> yields the columns of a row as a tuple in table order, so that index
  \<open>0\<close> is \<^verbatim>\<open>id\<close>, index \<open>1\<close> is \<^verbatim>\<open>property_id\<close>, index \<open>2\<close> is
  \<^verbatim>\<open>electricity_rate\<close> and so on. The program only does arithmetic on the entries,
  where Python mixes \<^verbatim>\<open>int\<close> and \<^verbatim>\<open>float\<close> freely, so every entry is given as a
  real.
\<close>

definition select_star :: "financial_data_row \<Rightarrow> real list" where
  "select_star r =
     [of_int (col_id r), of_int (col_property_id r), col_electricity_rate r,
      col_installation_cost_per_watt r, col_incentives r, col_financing_rate r,
      of_int (col_financing_term r), col_maintenance_cost_annual r,
      col_electricity_price_increase r, of_nat (col_timestamp r)]"

text \<open>
  Lines 188 to 193: the rows of the property, latest timestamp first, and of these the
  first one; \<^verbatim>\<open>None\<close> when the property has no row. Among rows of equal timestamp
  the model takes the one inserted first.
\<close>

definition fetchone_financial_data :: "financial_data_row list \<Rightarrow> int \<Rightarrow> real list option" where
  "fetchone_financial_data tbl pid =
     (case filter (\<lambda>r. col_property_id r = pid) tbl of
        [] \<Rightarrow> None
      | r # rs \<Rightarrow>
          Some (select_star (fold (\<lambda>x best. if col_timestamp best < col_timestamp x then x else best) rs r)))"

subsection \<open>The yearly loop (lines 207 to 238)\<close>

text \<open>The local variables of one iteration, after line 229.\<close>

record year_locals =
  l_production :: real
  l_savings :: real
  l_net_savings :: real
  l_cumulative_savings :: real
  l_roi :: real
  l_electricity_rate :: real

text \<open>
  Lines 214 to 229. The arguments \<open>cumulative_savings\<close> and \<open>electricity_rate\<close> are
  the values of the two loop variables when the iteration starts.
\<close>

definition year_body ::
  "real list \<Rightarrow> real \<Rightarrow> real \<Rightarrow> int \<Rightarrow> real \<Rightarrow> real \<Rightarrow> year_locals" where
  "year_body financial_data annual_production net_cost year cumulative_savings electricity_rate =
     (let production = annual_production * (1 - 0.005 * of_int year);
          savings = production * electricity_rate;
          net_savings = savings - financial_data ! 6;
          cumulative_savings' = cumulative_savings + net_savings;
          roi = (if net_cost > 0 then (cumulative_savings' / net_cost) * 100 else 0);
          electricity_rate' = electricity_rate * (1 + financial_data ! 7)
      in \<lparr>l_production = production, l_savings = savings, l_net_savings = net_savings,
          l_cumulative_savings = cumulative_savings', l_roi = roi,
          l_electricity_rate = electricity_rate'\<rparr>)"

text \<open>The dictionary appended to \<^verbatim>\<open>yearly_analysis\<close> (lines 231 to 238).\<close>

record yearly_entry =
  ya_year :: int
  ya_production_kwh :: real
  ya_electricity_rate :: real
  ya_yearly_savings :: real
  ya_cumulative_savings :: real
  ya_roi_percentage :: real

definition yearly_entry_of :: "int \<Rightarrow> year_locals \<Rightarrow> yearly_entry" where
  "yearly_entry_of year l =
     \<lparr>ya_year = year,
      ya_production_kwh = py_round (l_production l) 2,
      ya_electricity_rate = py_round (l_electricity_rate l) 3,
      ya_yearly_savings = py_round (l_net_savings l) 2,
      ya_cumulative_savings = py_round (l_cumulative_savings l) 2,
      ya_roi_percentage = py_round (l_roi l) 2\<rparr>"

text \<open>
  The loop over \<^verbatim>\<open>range(1, years + 1)\<close>. The state is the list built so far and
  the two loop variables \<open>cumulative_savings\<close> and \<open>electricity_rate\<close>.
\<close>

fun yearly_loop ::
  "real list \<Rightarrow> real \<Rightarrow> real \<Rightarrow> int list \<Rightarrow> yearly_entry list \<times> real \<times> real
     \<Rightarrow> yearly_entry list \<times> real \<times> real" where
  "yearly_loop financial_data annual_production net_cost [] st = st"
| "yearly_loop financial_data annual_production net_cost (year # years)
       (yearly_analysis, cumulative_savings, electricity_rate) =
     (let l = year_body financial_data annual_production net_cost year
                cumulative_savings electricity_rate
      in yearly_loop financial_data annual_production net_cost years
           (yearly_analysis @ [yearly_entry_of year l],
            l_cumulative_savings l, l_electricity_rate l))"

subsection \<open>Financing (lines 240 to 251)\<close>

record financing_details =
  fin_monthly_payment :: real
  fin_total_payments :: real
  fin_total_interest :: real

definition financing_of :: "real list \<Rightarrow> real \<Rightarrow> py_error + financing_details option" where
  "financing_of financial_data net_cost =
     (if financial_data ! 4 > 0 \<and> financial_data ! 5 > 0 then
        (let monthly_rate = financial_data ! 4 / 12 / 100;
             num_payments = financial_data ! 5 * 12
         in case py_truediv (net_cost * monthly_rate * (1 + monthly_rate) powr num_payments)
                            ((1 + monthly_rate) powr num_payments - 1) of
              Inl e \<Rightarrow> Inl e
            | Inr monthly_payment \<Rightarrow>
                Inr (Some \<lparr>fin_monthly_payment = py_round monthly_payment 2,
                           fin_total_payments = py_round (monthly_payment * num_payments) 2,
                           fin_total_interest =
                             py_round ((monthly_payment * num_payments) - net_cost) 2\<rparr>))
      else Inr None)"

subsection \<open>The result (lines 253 to 268)\<close>

record system_details =
  sd_size_kw :: real
  sd_base_cost :: real
  sd_incentives :: real
  sd_net_cost :: real

record summary =
  sum_total_25_year_savings :: real
  sum_average_annual_savings :: real
  sum_break_even_year :: "int option"

record financials =
  res_system_details :: system_details
  res_financing :: "financing_details option"
  res_yearly_analysis :: "yearly_entry list"
  res_summary :: summary

text \<open>
  Lines 265 and 266: the year of the first entry of the table whose
  \<^verbatim>\<open>cumulative_savings\<close> is at least \<open>net_cost\<close>, or \<^verbatim>\<open>None\<close>.
\<close>

definition break_even_year_of :: "yearly_entry list \<Rightarrow> real \<Rightarrow> int option" where
  "break_even_year_of yearly_analysis net_cost =
     map_option ya_year (List.find (\<lambda>year. ya_cumulative_savings year \<ge> net_cost) yearly_analysis)"

text \<open>Lines 202 to 205.\<close>

definition system_size_kw_of :: "real \<Rightarrow> real" where
  "system_size_kw_of annual_production = annual_production / (365 * 4)"

definition base_cost_of :: "real list \<Rightarrow> real \<Rightarrow> real" where
  "base_cost_of financial_data annual_production =
     system_size_kw_of annual_production * 1000 * financial_data ! 2"

definition net_cost_of :: "real list \<Rightarrow> real \<Rightarrow> real" where
  "net_cost_of financial_data annual_production =
     base_cost_of financial_data annual_production - financial_data ! 3"

text \<open>
  Lines 202 to 268: everything after the two look-ups. The dictionary that is returned is
  built field by field, so the division of line 264 is reached after the financing of
  lines 241 to 251.
\<close>

definition projection_of :: "real list \<Rightarrow> real \<Rightarrow> int \<Rightarrow> py_error + financials" where
  "projection_of financial_data annual_production years =
     (let system_size_kw = system_size_kw_of annual_production;
          base_cost = base_cost_of financial_data annual_production;
          net_cost = net_cost_of financial_data annual_production;
          (yearly_analysis, cumulative_savings, electricity_rate) =
             yearly_loop financial_data annual_production net_cost [1..years]
               ([], 0, financial_data ! 1)
      in case financing_of financial_data net_cost of
           Inl e \<Rightarrow> Inl e
         | Inr financing \<Rightarrow>
             (case py_truediv cumulative_savings (of_int years) of
                Inl e \<Rightarrow> Inl e
              | Inr average \<Rightarrow>
                  Inr \<lparr>res_system_details =
                         \<lparr>sd_size_kw = py_round system_size_kw 2,
                          sd_base_cost = py_round base_cost 2,
                          sd_incentives = py_round (financial_data ! 3) 2,
                          sd_net_cost = py_round net_cost 2\<rparr>,
                       res_financing = financing,
                       res_yearly_analysis = yearly_analysis,
                       res_summary =
                         \<lparr>sum_total_25_year_savings = py_round cumulative_savings 2,
                          sum_average_annual_savings = py_round average 2,
                          sum_break_even_year =
                            break_even_year_of yearly_analysis net_cost\<rparr>\<rparr>))"

text \<open>Lines 183 to 268.\<close>

definition calculate_detailed_financials ::
  "financial_data_row list \<Rightarrow> (int \<Rightarrow> py_error + real) \<Rightarrow> int \<Rightarrow> int \<Rightarrow> py_error + financials" where
  "calculate_detailed_financials tbl calculate_solar_potential pid years =
     (case fetchone_financial_data tbl pid of
        None \<Rightarrow> Inl (ValueError ''Financial data not found for property'')
      | Some financial_data \<Rightarrow>
          (case calculate_solar_potential pid of
             Inl e \<Rightarrow> Inl e
           | Inr annual_production \<Rightarrow> projection_of financial_data annual_production years))"

subsection \<open>The values computed in a given year\<close>

text \<open>
  The local variables of the iteration for \<open>year\<close>: the body of the loop, started in
  the state that the loop reaches after the years before it.
\<close>

definition locals_at :: "real list \<Rightarrow> real \<Rightarrow> real \<Rightarrow> int \<Rightarrow> year_locals" where
  "locals_at financial_data annual_production net_cost year =
     (case yearly_loop financial_data annual_production net_cost [1..year - 1]
             ([], 0, financial_data ! 1) of
        (yearly_analysis, cumulative_savings, electricity_rate) \<Rightarrow>
          year_body financial_data annual_production net_cost year
            cumulative_savings electricity_rate)"

subsection \<open>Concrete inputs\<close>

text \<open>
  The parameters of the example at the end of the source file (lines 339 to 348), stored
  by \<^verbatim>\<open>add_financial_data\<close> for the first property, whose id is \<open>1\<close>.
\<close>

definition example_row :: financial_data_row where
  "example_row =
     \<lparr>col_id = 1, col_property_id = 1, col_electricity_rate = 0.12,
      col_installation_cost_per_watt = 2.75, col_incentives = 5000,
      col_financing_rate = 4.5, col_financing_term = 20,
      col_maintenance_cost_annual = 200, col_electricity_price_increase = 0.03,
      col_timestamp = 0\<rparr>"

text \<open>A solar potential of 14600 kWh per year, that is a system of 10 kW.\<close>

definition potential_14600 :: "int \<Rightarrow> py_error + real" where
  "potential_14600 pid = Inr 14600"

text \<open>The same loan without incentives (the default of \<^verbatim>\<open>add_financial_data\<close>).\<close>

definition no_incentives_row :: financial_data_row where
  "no_incentives_row = example_row\<lparr>col_incentives := 0\<rparr>"

text \<open>The example without a loan term.\<close>

definition no_term_row :: financial_data_row where
  "no_term_row = example_row\<lparr>col_financing_term := 0\<rparr>"

text \<open>
  A loan at zero interest over ten years. With 14600 kWh per year the net cost is 12000,
  both as the program computes it and with the columns as they are named.
\<close>

definition zero_rate_row :: financial_data_row where
  "zero_rate_row =
     \<lparr>col_id = 1, col_property_id = 1, col_electricity_rate = 1.2002,
      col_installation_cost_per_watt = 2, col_incentives = 8000,
      col_financing_rate = 0, col_financing_term = 10,
      col_maintenance_cost_annual = 0, col_electricity_price_increase = 0,
      col_timestamp = 0\<rparr>"







text \<open>A property whose solar potential is zero.\<close>

definition potential_zero :: "int \<Rightarrow> py_error + real" where
  "potential_zero pid = Inr 0"

section \<open>Properties\<close>

subsection \<open>Rounding\<close>

lemma round_half_even_of_int: "round_half_even (of_int k) = k"
  by (simp add: round_half_even_def)

lemma round_half_even_upper: "of_int (round_half_even z) \<le> z + 1 / 2"
  unfolding round_half_even_def Let_def by (auto; linarith)

lemma round_half_even_lower: "z - 1 / 2 \<le> of_int (round_half_even z)"
  unfolding round_half_even_def Let_def by (auto; linarith)

lemma round_half_even_mono:
  assumes "x \<le> y"
  shows "round_half_even x \<le> round_half_even y"
proof (cases "\<lfloor>x\<rfloor> = \<lfloor>y\<rfloor>")
  case True
  then show ?thesis
    using assms unfolding round_half_even_def Let_def by auto
next
  case False
  then have "\<lfloor>x\<rfloor> < \<lfloor>y\<rfloor>"
    using assms floor_mono [of x y] by linarith
  moreover have "round_half_even x \<le> \<lfloor>x\<rfloor> + 1"
    unfolding round_half_even_def Let_def by auto
  moreover have "\<lfloor>y\<rfloor> \<le> round_half_even y"
    unfolding round_half_even_def Let_def by auto
  ultimately show ?thesis by linarith
qed

text \<open>A value less than half a unit away from an integer rounds to that integer.\<close>

lemma round_half_even_near:
  assumes "\<bar>z - of_int k\<bar> < 1 / 2"
  shows "round_half_even z = k"
proof -
  have lo: "of_int k - 1 / 2 < z" and hi: "z < of_int k + 1 / 2"
    using assms by linarith+
  show ?thesis
  proof (cases "of_int k \<le> z")
    case True
    then have "\<lfloor>z\<rfloor> = k" using hi by (intro floor_unique) auto
    then show ?thesis using hi by (simp add: round_half_even_def Let_def)
  next
    case False
    then have "\<lfloor>z\<rfloor> = k - 1" using lo by (intro floor_unique) auto
    then show ?thesis using lo by (auto simp add: round_half_even_def Let_def)
  qed
qed

lemma py_round_mono: "x \<le> y \<Longrightarrow> py_round x n \<le> py_round y n"
  unfolding py_round_def
  by (intro divide_right_mono) (simp_all add: round_half_even_mono)

lemma py_round_zero: "py_round 0 n = 0"
  by (simp add: py_round_def round_half_even_def)

lemma py_round_upper: "py_round x n \<le> x + 1 / (2 * 10 ^ n)"
proof -
  have "of_int (round_half_even (x * 10 ^ n)) / 10 ^ n \<le> (x * 10 ^ n + 1 / 2) / (10 ^ n :: real)"
    by (intro divide_right_mono round_half_even_upper) simp
  then show ?thesis
    by (simp add: py_round_def field_simps)
qed

lemma py_round_lower: "x - 1 / (2 * 10 ^ n) \<le> py_round x n"
proof -
  have "(x * 10 ^ n - 1 / 2) / (10 ^ n :: real) \<le> of_int (round_half_even (x * 10 ^ n)) / 10 ^ n"
    by (intro divide_right_mono round_half_even_lower) simp
  then show ?thesis
    by (simp add: py_round_def field_simps)
qed

subsection \<open>The loop\<close>

lemma yearly_loop_append:
  "yearly_loop fd ap nc (xs @ ys) st = yearly_loop fd ap nc ys (yearly_loop fd ap nc xs st)"
  by (induction fd ap nc xs st rule: yearly_loop.induct) (simp_all add: Let_def)

text \<open>The list built so far is only ever extended.\<close>

lemma yearly_loop_acc:
  "yearly_loop fd ap nc xs (acc, c, r) =
     (acc @ fst (yearly_loop fd ap nc xs ([], c, r)), snd (yearly_loop fd ap nc xs ([], c, r)))"
proof (induction xs arbitrary: acc c r)
  case Nil
  then show ?case by simp
next
  case (Cons y ys)
  show ?case
    by (simp add: Let_def Cons.IH [of "acc @ _"] Cons.IH [of "[_]"])
qed

lemma length_yearly_loop:
  "length (fst (yearly_loop fd ap nc xs (acc, c, r))) = length acc + length xs"
  by (induction xs arbitrary: acc c r) (simp_all add: Let_def)

lemma yearly_loop_snoc:
  "yearly_loop fd ap nc (xs @ [y]) ([], c0, r0) =
     (case yearly_loop fd ap nc xs ([], c0, r0) of
        (ya, c, r) \<Rightarrow> (ya @ [yearly_entry_of y (year_body fd ap nc y c r)],
                       l_cumulative_savings (year_body fd ap nc y c r),
                       l_electricity_rate (year_body fd ap nc y c r)))"
  by (simp add: yearly_loop_append Let_def split: prod.splits)

text \<open>After the iteration for year \<open>y\<close> the loop variables hold the values of that year.\<close>

lemma yearly_loop_upto:
  assumes "1 \<le> y"
  shows "yearly_loop fd ap nc [1..y] ([], 0, fd ! 1) =
     (fst (yearly_loop fd ap nc [1..y - 1] ([], 0, fd ! 1)) @
        [yearly_entry_of y (locals_at fd ap nc y)],
      l_cumulative_savings (locals_at fd ap nc y),
      l_electricity_rate (locals_at fd ap nc y))"
proof -
  have "[1..y] = [1..y - 1] @ [y]" using assms by (rule upto_rec2)
  then show ?thesis
    by (simp add: yearly_loop_snoc locals_at_def split: prod.splits)
qed

text \<open>Entry number \<open>y\<close> of the table is the rounded record of the values of year \<open>y\<close>.\<close>

lemma yearly_analysis_nth:
  assumes "1 \<le> y" "y \<le> years"
  shows "fst (yearly_loop fd ap nc [1..years] ([], 0, fd ! 1)) ! nat (y - 1) =
           yearly_entry_of y (locals_at fd ap nc y)"
proof -
  have "[1..years] = [1..y] @ [y + 1..years]" using assms by (rule upto_split2)
  then have "yearly_loop fd ap nc [1..years] ([], 0, fd ! 1) =
      yearly_loop fd ap nc [y + 1..years] (yearly_loop fd ap nc [1..y] ([], 0, fd ! 1))"
    by (simp add: yearly_loop_append)
  also have "\<dots> = yearly_loop fd ap nc [y + 1..years]
      (fst (yearly_loop fd ap nc [1..y - 1] ([], 0, fd ! 1)) @
        [yearly_entry_of y (locals_at fd ap nc y)],
      l_cumulative_savings (locals_at fd ap nc y),
      l_electricity_rate (locals_at fd ap nc y))"
    by (simp only: yearly_loop_upto [OF assms(1)])
  finally have "fst (yearly_loop fd ap nc [1..years] ([], 0, fd ! 1)) =
      (fst (yearly_loop fd ap nc [1..y - 1] ([], 0, fd ! 1)) @
        [yearly_entry_of y (locals_at fd ap nc y)]) @
      fst (yearly_loop fd ap nc [y + 1..years] ([], l_cumulative_savings (locals_at fd ap nc y),
      l_electricity_rate (locals_at fd ap nc y)))"
    by (simp add: yearly_loop_acc [of _ _ _ _ "_ @ _"])
  moreover have "length (fst (yearly_loop fd ap nc [1..y - 1] ([], 0, fd ! 1))) = nat (y - 1)"
    by (simp add: length_yearly_loop)
  ultimately show ?thesis
    by (simp add: nth_append)
qed

lemma length_yearly_analysis:
  "length (fst (yearly_loop fd ap nc [1..years] ([], 0, fd ! 1))) = nat years"
  by (simp add: length_yearly_loop)

subsection \<open>Financing and the result\<close>

lemma financing_denominator:
  assumes "0 < m" "0 < n"
  shows "(1 + m) powr n \<noteq> (1::real)"
proof -
  have "1 < (1 + m) powr n"
    using assms by (intro gr_one_powr) simp_all
  then show ?thesis by simp
qed

lemma financing_of_absent:
  "\<not> (fd ! 4 > 0 \<and> fd ! 5 > 0) \<Longrightarrow> financing_of fd nc = Inr None"
  by (auto simp add: financing_of_def)

text \<open>In exact arithmetic the division of line 245 never fails.\<close>

lemma financing_of_present:
  "fd ! 4 > 0 \<Longrightarrow> fd ! 5 > 0 \<Longrightarrow> \<exists>f. financing_of fd nc = Inr (Some f)"
  using financing_denominator [of "fd ! 4 / 12 / 100" "fd ! 5 * 12"]
  by (simp add: financing_of_def py_truediv_def Let_def)

lemma financing_of_returns: "\<exists>fin. financing_of fd nc = Inr fin"
  using financing_of_absent [of fd nc] financing_of_present [of fd nc] by blast

lemma calculate_detailed_financials_found:
  assumes "fetchone_financial_data tbl pid = Some fd" "csp pid = Inr ap"
  shows "calculate_detailed_financials tbl csp pid years = projection_of fd ap years"
  using assms by (simp add: calculate_detailed_financials_def)

text \<open>For every number of years other than zero the projection returns a result.\<close>

lemma projection_of_returns:
  assumes "years \<noteq> 0"
  shows "\<exists>res. projection_of fd ap years = Inr res \<and>
     res_system_details res =
       \<lparr>sd_size_kw = py_round (system_size_kw_of ap) 2,
        sd_base_cost = py_round (base_cost_of fd ap) 2,
        sd_incentives = py_round (fd ! 3) 2,
        sd_net_cost = py_round (net_cost_of fd ap) 2\<rparr> \<and>
     financing_of fd (net_cost_of fd ap) = Inr (res_financing res) \<and>
     res_yearly_analysis res =
       fst (yearly_loop fd ap (net_cost_of fd ap) [1..years] ([], 0, fd ! 1)) \<and>
     sum_break_even_year (res_summary res) =
       break_even_year_of (res_yearly_analysis res) (net_cost_of fd ap)"
proof -
  obtain fin where "financing_of fd (net_cost_of fd ap) = Inr fin"
    using financing_of_returns by blast
  then show ?thesis
    using assms
    by (simp add: projection_of_def Let_def py_truediv_def split_beta)
qed

text \<open>With \<open>years = 0\<close> the average of line 264 divides by zero.\<close>

lemma projection_of_zero_years: "projection_of fd ap 0 = Inl ZeroDivisionError"
proof -
  obtain fin where "financing_of fd (net_cost_of fd ap) = Inr fin"
    using financing_of_returns by blast
  then show ?thesis
    by (simp add: projection_of_def Let_def py_truediv_def split_beta)
qed

subsection \<open>The columns that the program reads\<close>

lemma fetchone_single:
  "fetchone_financial_data [row] (col_property_id row) = Some (select_star row)"
  by (simp add: fetchone_financial_data_def)

lemma select_star_nth:
  "select_star row ! 1 = of_int (col_property_id row)"
  "select_star row ! 2 = col_electricity_rate row"
  "select_star row ! 3 = col_installation_cost_per_watt row"
  "select_star row ! 4 = col_incentives row"
  "select_star row ! 5 = col_financing_rate row"
  "select_star row ! 6 = of_int (col_financing_term row)"
  "select_star row ! 7 = col_maintenance_cost_annual row"
  by (simp_all add: select_star_def)


lemma yearly_loop_rate:
  "snd (snd (yearly_loop fd ap nc xs (acc, c, r))) = r * (1 + fd ! 7) ^ length xs"
  by (induction xs arbitrary: acc c r) (simp_all add: Let_def year_body_def)

lemma locals_at_first:
  "locals_at fd ap nc 1 = year_body fd ap nc 1 0 (fd ! 1)"
  by (simp add: locals_at_def)

text \<open>What the loop computes, in terms of the columns it reads.\<close>

lemma locals_at_columns:
  assumes "1 \<le> y"
  shows "l_production (locals_at (select_star row) ap nc y) = ap * (1 - 0.005 * of_int y)"
    and "l_savings (locals_at (select_star row) ap nc y) =
           l_production (locals_at (select_star row) ap nc y) *
             (of_int (col_property_id row) * (1 + col_maintenance_cost_annual row) ^ nat (y - 1))"
    and "l_net_savings (locals_at (select_star row) ap nc y) =
           l_savings (locals_at (select_star row) ap nc y) - of_int (col_financing_term row)"
    and "l_electricity_rate (locals_at (select_star row) ap nc y) =
           of_int (col_property_id row) * (1 + col_maintenance_cost_annual row) ^ nat y"
proof -
  obtain ya c r where st: "yearly_loop (select_star row) ap nc [1..y - 1] ([], 0, select_star row ! 1) = (ya, c, r)"
    by (cases "yearly_loop (select_star row) ap nc [1..y - 1] ([], 0, select_star row ! 1)") auto
  have "r = snd (snd (yearly_loop (select_star row) ap nc [1..y - 1] ([], 0, select_star row ! 1)))"
    by (simp only: st snd_conv)
  then have r: "r = of_int (col_property_id row) * (1 + col_maintenance_cost_annual row) ^ nat (y - 1)"
    by (simp only: yearly_loop_rate select_star_nth length_upto) simp
  have loc: "locals_at (select_star row) ap nc y = year_body (select_star row) ap nc y c r"
    by (simp only: locals_at_def st prod.case)
  show "l_production (locals_at (select_star row) ap nc y) = ap * (1 - 0.005 * of_int y)"
    by (simp add: loc year_body_def Let_def)
  show "l_savings (locals_at (select_star row) ap nc y) =
           l_production (locals_at (select_star row) ap nc y) *
             (of_int (col_property_id row) * (1 + col_maintenance_cost_annual row) ^ nat (y - 1))"
    by (simp add: loc year_body_def Let_def r)
  show "l_net_savings (locals_at (select_star row) ap nc y) =
           l_savings (locals_at (select_star row) ap nc y) - of_int (col_financing_term row)"
    by (simp add: loc year_body_def Let_def select_star_nth)
  have "nat y = Suc (nat (y - 1))" using assms by simp
  then show "l_electricity_rate (locals_at (select_star row) ap nc y) =
           of_int (col_property_id row) * (1 + col_maintenance_cost_annual row) ^ nat y"
    by (simp add: loc year_body_def Let_def r select_star_nth)
qed

text \<open>
  Every call for a property that has a row, with a solar potential and a number of years
  other than zero, returns a result.
\<close>

lemma calculate_detailed_financials_returns:
  assumes "fetchone_financial_data tbl pid = Some fd" "csp pid = Inr ap" "years \<noteq> 0"
  shows "\<exists>res. calculate_detailed_financials tbl csp pid years = Inr res \<and>
     res_system_details res =
       \<lparr>sd_size_kw = py_round (system_size_kw_of ap) 2,
        sd_base_cost = py_round (base_cost_of fd ap) 2,
        sd_incentives = py_round (fd ! 3) 2,
        sd_net_cost = py_round (net_cost_of fd ap) 2\<rparr> \<and>
     financing_of fd (net_cost_of fd ap) = Inr (res_financing res) \<and>
     res_yearly_analysis res =
       fst (yearly_loop fd ap (net_cost_of fd ap) [1..years] ([], 0, fd ! 1)) \<and>
     sum_break_even_year (res_summary res) =
       break_even_year_of (res_yearly_analysis res) (net_cost_of fd ap)"
  using projection_of_returns [OF assms(3), of fd ap]
  by (simp only: calculate_detailed_financials_found [where csp = csp, OF assms(1) assms(2)])

text \<open>The condition of line 242, in terms of the columns it reads.\<close>

lemma financing_present_iff:
  assumes "fetchone_financial_data tbl pid = Some (select_star row)" "csp pid = Inr ap"
    "years \<noteq> 0"
  shows "\<exists>res. calculate_detailed_financials tbl csp pid years = Inr res \<and>
     (res_financing res \<noteq> None) = (col_incentives row > 0 \<and> col_financing_rate row > 0)"
proof -
  obtain res where res: "calculate_detailed_financials tbl csp pid years = Inr res"
    and fin: "financing_of (select_star row) (net_cost_of (select_star row) ap) = Inr (res_financing res)"
    using calculate_detailed_financials_returns [where csp = csp, OF assms] by auto
  have "(res_financing res \<noteq> None) = (select_star row ! 4 > 0 \<and> select_star row ! 5 > 0)"
  proof (cases "select_star row ! 4 > 0 \<and> select_star row ! 5 > 0")
    case True
    then obtain f where "financing_of (select_star row) (net_cost_of (select_star row) ap) = Inr (Some f)"
      using financing_of_present by blast
    then show ?thesis using fin True by simp
  next
    case False
    then have "financing_of (select_star row) (net_cost_of (select_star row) ap) = Inr None"
      by (rule financing_of_absent)
    then show ?thesis using fin False by simp
  qed
  then show ?thesis using res by (simp add: select_star_nth)
qed

subsection \<open>From one year to the next\<close>

lemma locals_at_step:
  assumes "1 \<le> y"
  shows "locals_at fd ap nc (y + 1) =
           year_body fd ap nc (y + 1) (l_cumulative_savings (locals_at fd ap nc y))
             (l_electricity_rate (locals_at fd ap nc y))"
proof -
  have "locals_at fd ap nc (y + 1) =
      (case yearly_loop fd ap nc [1..y] ([], 0, fd ! 1) of
         (ya, c, r) \<Rightarrow> year_body fd ap nc (y + 1) c r)"
    by (simp only: locals_at_def add_diff_cancel_right')
  then show ?thesis
    by (simp only: yearly_loop_upto [OF assms] prod.case)
qed



lemma locals_at_production:
  "l_production (locals_at fd ap nc y) = ap * (1 - 0.005 * of_int y)"
  by (simp add: locals_at_def year_body_def Let_def split: prod.splits)


lemma entry_fields:
  assumes "fetchone_financial_data tbl pid = Some fd" "csp pid = Inr ap"
    "1 \<le> y" "y \<le> years"
  shows "\<exists>res. calculate_detailed_financials tbl csp pid years = Inr res \<and>
     res_yearly_analysis res =
       fst (yearly_loop fd ap (net_cost_of fd ap) [1..years] ([], 0, fd ! 1)) \<and>
     sum_break_even_year (res_summary res) =
       break_even_year_of (res_yearly_analysis res) (net_cost_of fd ap)"
proof -
  have "years \<noteq> 0" using assms(3,4) by simp
  then show ?thesis
    using calculate_detailed_financials_returns [where csp = csp, OF assms(1) assms(2), of years]
    by blast
qed

text \<open>The production recorded for a year.\<close>

lemma production_kwh_nth:
  assumes "fetchone_financial_data tbl pid = Some fd" "csp pid = Inr ap"
    "1 \<le> y" "y \<le> years"
  shows "\<exists>res. calculate_detailed_financials tbl csp pid years = Inr res \<and>
     ya_production_kwh (res_yearly_analysis res ! nat (y - 1)) =
       py_round (ap * (1 - 0.005 * of_int y)) 2"
proof -
  obtain res where res: "calculate_detailed_financials tbl csp pid years = Inr res"
    and ya: "res_yearly_analysis res =
       fst (yearly_loop fd ap (net_cost_of fd ap) [1..years] ([], 0, fd ! 1))"
    using entry_fields [where csp = csp, OF assms] by blast
  have "res_yearly_analysis res ! nat (y - 1) =
      yearly_entry_of y (locals_at fd ap (net_cost_of fd ap) y)"
    unfolding ya using assms(3,4) by (rule yearly_analysis_nth)
  then show ?thesis
    using res by (simp add: yearly_entry_of_def locals_at_production)
qed


subsection \<open>The break-even year\<close>





text \<open>
  With nothing deducted and no escalation, the net savings of the first two years cannot
  both be 1000: the production of year 2 is lower than that of year 1.
\<close>

lemma constant_net_savings_impossible:
  assumes "fd ! 6 = 0" "fd ! 7 = 0" "l_net_savings (locals_at fd ap nc 1) = 1000"
  shows "l_net_savings (locals_at fd ap nc 2) \<noteq> 1000"
proof -
  have one: "(1::int) \<le> 1" by simp
  have s: "locals_at fd ap nc 2 =
      year_body fd ap nc 2 (l_cumulative_savings (locals_at fd ap nc 1))
        (l_electricity_rate (locals_at fd ap nc 1))"
    using locals_at_step [OF one, of fd ap nc] by simp
  have n1: "l_net_savings (locals_at fd ap nc 1) = ap * (1 - 0.005) * fd ! 1"
    using assms(1) by (simp add: locals_at_first year_body_def Let_def)
  have r1: "l_electricity_rate (locals_at fd ap nc 1) = fd ! 1"
    using assms(2) by (simp add: locals_at_first year_body_def Let_def)
  have n2: "l_net_savings (locals_at fd ap nc 2) = ap * (1 - 0.005 * 2) * fd ! 1"
    using assms(1) by (simp add: s year_body_def Let_def r1)
  have "ap * fd ! 1 * 0.995 = 1000" using assms(3) n1 by (simp add: mult.commute mult.left_commute)
  then have "ap * fd ! 1 * 0.99 \<noteq> 1000" by auto
  then show ?thesis using n2 by (simp add: mult.commute mult.left_commute)
qed

subsection \<open>Evaluation on concrete inputs\<close>


subsection \<open>Recorded values and running sums\<close>





subsection \<open>Savings of 1000 per year before degradation\<close>





subsection \<open>Further concrete inputs\<close>



section \<open>The claims\<close>

subsection \<open>C1: the yearly loop\<close>

text \<open>
  C1. The claim: in every year the savings are the production times the current rate, the
  current rate starts at the stored \<^verbatim>\<open>electricity_rate\<close>, the net savings are the
  savings minus the stored \<^verbatim>\<open>maintenance_cost_annual\<close>, and after each year the rate
  is multiplied by one plus the stored \<^verbatim>\<open>electricity_price_increase\<close>.

  The loop has this shape (lemma \<open>locals_at_columns\<close>), but the program reads the
  row by position and starts one column too early: the rate starts at entry 1, the
  \<^verbatim>\<open>property_id\<close> (line 210), entry 6, the \<^verbatim>\<open>financing_term\<close>, is subtracted
  (line 220), and the rate grows by entry 7, the \<^verbatim>\<open>maintenance_cost_annual\<close> (line
  229). The comments on these lines name the columns of the claim. The theorem runs the
  program on the example of the source file with 14600 kWh per year: in year 1 the
  production is 14527, the recorded net savings are \<open>14527 * 1 - 20 = 14507\<close> and the
  recorded rate is \<open>1 * (1 + 200) = 201\<close>, where the claim gives
  \<open>14527 * 0.12 - 200 = 1543.24\<close> and \<open>0.12 * 1.03\<close>, recorded as \<open>0.124\<close>.
\<close>

theorem C1_first_year_at_example:
  "\<exists>res. calculate_detailed_financials [example_row] potential_14600 1 25 = Inr res \<and>
     ya_production_kwh (res_yearly_analysis res ! 0) = 14527 \<and>
     ya_yearly_savings (res_yearly_analysis res ! 0) = 14507 \<and>
     ya_electricity_rate (res_yearly_analysis res ! 0) = 201 \<and>
     py_round (14527 * col_electricity_rate example_row
                 - col_maintenance_cost_annual example_row) 2 = 1543.24 \<and>
     py_round (col_electricity_rate example_row
                 * (1 + col_electricity_price_increase example_row)) 3 = 0.124"
proof -
  have f: "fetchone_financial_data [example_row] 1 = Some (select_star example_row)"
    using fetchone_single [of example_row] by (simp add: example_row_def)
  have p: "potential_14600 1 = Inr 14600" by (simp add: potential_14600_def)
  obtain res where res: "calculate_detailed_financials [example_row] potential_14600 1 25 = Inr res"
    and ya: "res_yearly_analysis res =
       fst (yearly_loop (select_star example_row) 14600 (net_cost_of (select_star example_row) 14600)
              [1..25] ([], 0, select_star example_row ! 1))"
    using calculate_detailed_financials_returns [where csp = potential_14600, OF f p, of 25] by auto
  have e: "res_yearly_analysis res ! nat (1 - 1) =
      yearly_entry_of 1 (locals_at (select_star example_row) 14600
        (net_cost_of (select_star example_row) 14600) 1)"
    unfolding ya by (rule yearly_analysis_nth) simp_all
  have e0: "res_yearly_analysis res ! 0 =
      yearly_entry_of 1 (year_body (select_star example_row) 14600
        (net_cost_of (select_star example_row) 14600) 1 0 (select_star example_row ! 1))"
    using e by (simp only: locals_at_first) simp
  have "ya_production_kwh (res_yearly_analysis res ! 0) = 14527"
    by (simp add: e0 yearly_entry_of_def year_body_def Let_def py_round_def round_half_even_def)
  moreover have "ya_yearly_savings (res_yearly_analysis res ! 0) = 14507"
    by (simp add: e0 yearly_entry_of_def year_body_def Let_def select_star_def example_row_def
        py_round_def round_half_even_def)
  moreover have "ya_electricity_rate (res_yearly_analysis res ! 0) = 201"
    by (simp add: e0 yearly_entry_of_def year_body_def Let_def select_star_def example_row_def
        py_round_def round_half_even_def)
  moreover have "py_round (14527 * col_electricity_rate example_row
                 - col_maintenance_cost_annual example_row) 2 = 1543.24"
    by (simp add: example_row_def py_round_def round_half_even_def)
  moreover have "py_round (col_electricity_rate example_row
                 * (1 + col_electricity_price_increase example_row)) 3 = 0.124"
    by (simp add: example_row_def py_round_def round_half_even_def)
  ultimately show ?thesis using res by blast
qed

subsection \<open>C2: system size and cost basis\<close>

text \<open>
  C2. The claim: \<open>system_size_kw = annual_production / (365 * 4)\<close>, \<open>base_cost\<close> is
  \<open>system_size_kw * 1000\<close> times the stored \<^verbatim>\<open>installation_cost_per_watt\<close>, and
  \<open>net_cost\<close> is \<open>base_cost\<close> minus the stored \<^verbatim>\<open>incentives\<close>, without clamping.

  The program reads the row by position and starts one column too early: line 204
  multiplies by entry 2, which is \<^verbatim>\<open>electricity_rate\<close>, and line 205 subtracts
  entry 3, which is \<^verbatim>\<open>installation_cost_per_watt\<close> (lemma \<open>cost_basis_columns\<close>),
  although the comments on these lines name the columns of the claim. The theorem runs the program on the example of
  the source file (lines 339 to 348) with 14600 kWh per year: the size is 10 kW as
  claimed, but the base cost is \<open>10 * 1000 * 0.12 = 1200\<close> and the net cost
  \<open>1200 - 2.75 = 1197.25\<close>, where the claim gives \<open>27500\<close> and \<open>22500\<close>.
\<close>

theorem C2_cost_basis_at_example:
  "\<exists>res. calculate_detailed_financials [example_row] potential_14600 1 25 = Inr res \<and>
     sd_size_kw (res_system_details res) = 10 \<and>
     sd_base_cost (res_system_details res) = 1200 \<and>
     sd_net_cost (res_system_details res) = 1197.25 \<and>
     py_round (system_size_kw_of 14600 * 1000 * col_installation_cost_per_watt example_row) 2 = 27500 \<and>
     py_round (system_size_kw_of 14600 * 1000 * col_installation_cost_per_watt example_row
                 - col_incentives example_row) 2 = 22500"
proof -
  have f: "fetchone_financial_data [example_row] 1 = Some (select_star example_row)"
    using fetchone_single [of example_row] by (simp add: example_row_def)
  have p: "potential_14600 1 = Inr 14600" by (simp add: potential_14600_def)
  obtain res where res: "projection_of (select_star example_row) 14600 25 = Inr res"
    and sd: "res_system_details res =
       \<lparr>sd_size_kw = py_round (system_size_kw_of 14600) 2,
        sd_base_cost = py_round (base_cost_of (select_star example_row) 14600) 2,
        sd_incentives = py_round (select_star example_row ! 3) 2,
        sd_net_cost = py_round (net_cost_of (select_star example_row) 14600) 2\<rparr>"
    using projection_of_returns [of 25 "select_star example_row" 14600] by auto
  have "calculate_detailed_financials [example_row] potential_14600 1 25 = Inr res"
    by (simp add: calculate_detailed_financials_found [where csp = potential_14600, OF f p] res)
  moreover have "sd_size_kw (res_system_details res) = 10"
    by (simp add: sd system_size_kw_of_def py_round_def round_half_even_def)
  moreover have "sd_base_cost (res_system_details res) = 1200"
    by (simp add: sd base_cost_of_def system_size_kw_of_def select_star_def example_row_def
        py_round_def round_half_even_def)
  moreover have "sd_net_cost (res_system_details res) = 1197.25"
    by (simp add: sd net_cost_of_def base_cost_of_def system_size_kw_of_def select_star_def
        example_row_def py_round_def round_half_even_def)
  moreover have "py_round (system_size_kw_of 14600 * 1000 * col_installation_cost_per_watt example_row) 2 = 27500"
    by (simp add: system_size_kw_of_def example_row_def py_round_def round_half_even_def)
  moreover have "py_round (system_size_kw_of 14600 * 1000 * col_installation_cost_per_watt example_row
                 - col_incentives example_row) 2 = 22500"
    by (simp add: system_size_kw_of_def example_row_def py_round_def round_half_even_def)
  ultimately show ?thesis by blast
qed

subsection \<open>C3: presence of the financing section\<close>

text \<open>
  C3. The claim: the financing section is present exactly when the stored
  \<^verbatim>\<open>financing_rate\<close> and the stored \<^verbatim>\<open>financing_term\<close> are both positive.

  Line 242 tests entries 4 and 5 of the row, which are \<^verbatim>\<open>incentives\<close> and
  \<^verbatim>\<open>financing_rate\<close> (lemma \<open>financing_present_iff\<close>), although its comment names
  rate and term. The theorem runs the program on two variants of the example of the
  source file: a loan at 4.5 percent over 20 years without incentives has no financing
  section, and with incentives of 5000 and a term of 0 years it has one.
\<close>

theorem C3_financing_gate_at_examples:
  "map_sum id res_financing
     (calculate_detailed_financials [no_incentives_row] potential_14600 1 25) = Inr None \<and>
   col_financing_rate no_incentives_row = 4.5 \<and> col_financing_term no_incentives_row = 20 \<and>
   (\<exists>f. map_sum id res_financing
     (calculate_detailed_financials [no_term_row] potential_14600 1 25) = Inr (Some f)) \<and>
   col_financing_rate no_term_row = 4.5 \<and> col_financing_term no_term_row = 0"
proof -
  have p: "potential_14600 1 = Inr 14600" by (simp add: potential_14600_def)
  have f1: "fetchone_financial_data [no_incentives_row] 1 = Some (select_star no_incentives_row)"
    using fetchone_single [of no_incentives_row] by (simp add: no_incentives_row_def example_row_def)
  have f2: "fetchone_financial_data [no_term_row] 1 = Some (select_star no_term_row)"
    using fetchone_single [of no_term_row] by (simp add: no_term_row_def example_row_def)
  have "map_sum id res_financing
     (calculate_detailed_financials [no_incentives_row] potential_14600 1 25) = Inr None"
    using financing_present_iff [where csp = potential_14600, OF f1 p, of 25]
    by (auto simp add: no_incentives_row_def example_row_def)
  moreover have "\<exists>f. map_sum id res_financing
     (calculate_detailed_financials [no_term_row] potential_14600 1 25) = Inr (Some f)"
    using financing_present_iff [where csp = potential_14600, OF f2 p, of 25]
    by (auto simp add: no_term_row_def example_row_def)
  ultimately show ?thesis
    by (simp add: no_incentives_row_def no_term_row_def example_row_def)
qed

subsection \<open>C4: the break-even year\<close>




subsection \<open>C5: financing at zero interest\<close>

text \<open>
  C5. The claim: with a financing rate of zero the monthly payment is \<open>net_cost / n\<close>; a
  rate of zero over 10 years with a net cost of 12000 gives a monthly payment of 100.

  The program computes nothing of the kind: the condition of line 242 requires the rate
  to be positive, so at a rate of zero the financing section is \<^verbatim>\<open>None\<close> and there is
  no monthly payment. In the counterexample the rate is 0, the term is 10 years and the
  net cost is 12000.
\<close>

theorem C5_zero_rate_counterexample:
  "col_financing_rate zero_rate_row = 0 \<and> col_financing_term zero_rate_row = 10 \<and>
   net_cost_of (select_star zero_rate_row) 14600 = 12000 \<and>
   map_sum id (sd_net_cost \<circ> res_system_details)
     (calculate_detailed_financials [zero_rate_row] potential_14600 1 25) = Inr 12000 \<and>
   map_sum id res_financing
     (calculate_detailed_financials [zero_rate_row] potential_14600 1 25) = Inr None"
proof -
  have p: "potential_14600 1 = Inr 14600" by (simp add: potential_14600_def)
  have f: "fetchone_financial_data [zero_rate_row] 1 = Some (select_star zero_rate_row)"
    using fetchone_single [of zero_rate_row] by (simp add: zero_rate_row_def)
  have nc: "net_cost_of (select_star zero_rate_row) 14600 = 12000"
    by (simp add: net_cost_of_def base_cost_of_def system_size_kw_of_def select_star_def
        zero_rate_row_def)
  obtain res where res: "calculate_detailed_financials [zero_rate_row] potential_14600 1 25 = Inr res"
    and sd: "res_system_details res =
       \<lparr>sd_size_kw = py_round (system_size_kw_of 14600) 2,
        sd_base_cost = py_round (base_cost_of (select_star zero_rate_row) 14600) 2,
        sd_incentives = py_round (select_star zero_rate_row ! 3) 2,
        sd_net_cost = py_round (net_cost_of (select_star zero_rate_row) 14600) 2\<rparr>"
    and fin: "financing_of (select_star zero_rate_row) (net_cost_of (select_star zero_rate_row) 14600)
        = Inr (res_financing res)"
    using calculate_detailed_financials_returns [where csp = potential_14600, OF f p, of 25] by auto
  have "res_financing res = None"
    using fin financing_of_absent [of "select_star zero_rate_row" "net_cost_of (select_star zero_rate_row) 14600"]
    by (simp add: select_star_nth zero_rate_row_def)
  then have a: "map_sum id res_financing
     (calculate_detailed_financials [zero_rate_row] potential_14600 1 25) = Inr None"
    by (simp add: res)
  have "sd_net_cost (res_system_details res) = 12000"
    by (simp add: sd nc py_round_def round_half_even_def)
  then have b: "map_sum id (sd_net_cost \<circ> res_system_details)
     (calculate_detailed_financials [zero_rate_row] potential_14600 1 25) = Inr 12000"
    by (simp add: res)
  have c: "col_financing_rate zero_rate_row = 0" "col_financing_term zero_rate_row = 10"
    by (simp_all add: zero_rate_row_def)
  show ?thesis
    using a b c nc by blast
qed

text \<open>
  C5, as amended. When the stored \<^verbatim>\<open>financing_rate\<close> is zero, the financing section
  of the result is absent: the condition of line 242 skips the whole computation, its
  division included, and no monthly payment is produced.
\<close>

theorem C5_zero_rate_no_financing:
  assumes "fetchone_financial_data tbl pid = Some (select_star row)"
    and "calculate_solar_potential pid = Inr annual_production"
    and "years \<noteq> 0"
    and "col_financing_rate row = 0"
  shows "\<exists>res. calculate_detailed_financials tbl calculate_solar_potential pid years = Inr res \<and>
           res_financing res = None"
  using financing_present_iff [where csp = calculate_solar_potential, OF assms(1) assms(2) assms(3)] assms(4)
  by auto

theorem C5_zero_rate_no_financing_witness:
  "fetchone_financial_data [zero_rate_row] 1 = Some (select_star zero_rate_row) \<and>
   potential_14600 1 = Inr 14600 \<and> col_financing_rate zero_rate_row = 0 \<and>
   (\<exists>res. calculate_detailed_financials [zero_rate_row] potential_14600 1 25 = Inr res \<and>
           res_financing res = None)"
proof -
  have p: "potential_14600 1 = Inr 14600" by (simp add: potential_14600_def)
  have f: "fetchone_financial_data [zero_rate_row] 1 = Some (select_star zero_rate_row)"
    using fetchone_single [of zero_rate_row] by (simp add: zero_rate_row_def)
  have y: "(25::int) \<noteq> 0" by simp
  have z: "col_financing_rate zero_rate_row = 0" by (simp add: zero_rate_row_def)
  show ?thesis
    using f p z C5_zero_rate_no_financing [where calculate_solar_potential = potential_14600, OF f p y z]
    by blast
qed

subsection \<open>C6: linear degradation\<close>




subsection \<open>C7: the recorded production over the years\<close>

text \<open>
  C7. The claim: over 25 years the recorded values of \<^verbatim>\<open>production_kwh\<close> are strictly
  decreasing, and the value of year 25 is below that of year 1.

  With a solar potential of zero every recorded production is zero: the value of year 25
  equals that of year 1.
\<close>

theorem C7_zero_production_counterexample:
  "\<not> isl (calculate_detailed_financials [example_row] potential_zero 1 25) \<and>
   ya_production_kwh
     (res_yearly_analysis (projr (calculate_detailed_financials [example_row] potential_zero 1 25)) ! 24) = 0 \<and>
   ya_production_kwh
     (res_yearly_analysis (projr (calculate_detailed_financials [example_row] potential_zero 1 25)) ! 0) = 0"
proof -
  have p: "potential_zero 1 = Inr 0" by (simp add: potential_zero_def)
  have f: "fetchone_financial_data [example_row] 1 = Some (select_star example_row)"
    using fetchone_single [of example_row] by (simp add: example_row_def)
  have a: "(1::int) \<le> 25" "(25::int) \<le> 25" "(1::int) \<le> 1"
    by simp_all
  obtain res where res: "calculate_detailed_financials [example_row] potential_zero 1 25 = Inr res"
    using entry_fields [where csp = potential_zero, OF f p a(1) a(2)] by blast
  have "ya_production_kwh (res_yearly_analysis res ! nat (25 - 1)) = py_round (0 * (1 - 0.005 * of_int 25)) 2"
    using production_kwh_nth [where csp = potential_zero, OF f p a(1) a(2)] res by auto
  then have l: "ya_production_kwh (res_yearly_analysis res ! 24) = 0"
    by (simp add: py_round_zero)
  have "ya_production_kwh (res_yearly_analysis res ! nat (1 - 1)) = py_round (0 * (1 - 0.005 * of_int 1)) 2"
    using production_kwh_nth [where csp = potential_zero, OF f p a(3) a(1)] res by auto
  then have h: "ya_production_kwh (res_yearly_analysis res ! 0) = 0"
    by (simp add: py_round_zero)
  show ?thesis
    using l h by (simp add: res)
qed

text \<open>
  C7, as amended. For an annual production that is not negative, the recorded production
  of a later year is at most that of an earlier year. When the annual production exceeds
  2 kWh, so that one year of degradation is more than a cent of a kWh, the recorded
  production of a later year is strictly below that of an earlier year; in particular
  that of year 25 is below that of year 1.
\<close>

theorem C7_production_decreases:
  assumes "fetchone_financial_data tbl pid = Some fd"
    and "calculate_solar_potential pid = Inr annual_production"
    and "1 \<le> i" and "i < j" and "j \<le> years"
  shows "\<exists>res. calculate_detailed_financials tbl calculate_solar_potential pid years = Inr res \<and>
     (0 \<le> annual_production \<longrightarrow>
        ya_production_kwh (res_yearly_analysis res ! nat (j - 1))
          \<le> ya_production_kwh (res_yearly_analysis res ! nat (i - 1))) \<and>
     (2 < annual_production \<longrightarrow>
        ya_production_kwh (res_yearly_analysis res ! nat (j - 1))
          < ya_production_kwh (res_yearly_analysis res ! nat (i - 1)))"
proof -
  let ?x = "\<lambda>k::int. annual_production * (1 - 0.005 * of_int k)"
  have ri: "1 \<le> i" "i \<le> years" and rj: "1 \<le> j" "j \<le> years"
    using assms(3,4,5) by simp_all
  obtain res where res: "calculate_detailed_financials tbl calculate_solar_potential pid years = Inr res"
    and pi: "ya_production_kwh (res_yearly_analysis res ! nat (i - 1)) = py_round (?x i) 2"
    using production_kwh_nth [where csp = calculate_solar_potential, OF assms(1) assms(2) ri] by blast
  have pj: "ya_production_kwh (res_yearly_analysis res ! nat (j - 1)) = py_round (?x j) 2"
    using production_kwh_nth [where csp = calculate_solar_potential, OF assms(1) assms(2) rj] res by auto
  have diff: "?x i - ?x j = annual_production * 0.005 * of_int (j - i)"
    by (simp add: algebra_simps)
  have ji: "(1::real) \<le> of_int (j - i)" using assms(4) by linarith
  have le: "py_round (?x j) 2 \<le> py_round (?x i) 2" if "0 \<le> annual_production"
  proof -
    have "0 \<le> annual_production * 0.005 * of_int (j - i)"
      using that ji by simp
    then have "?x j \<le> ?x i" using diff by linarith
    then show ?thesis by (rule py_round_mono)
  qed
  have lt: "py_round (?x j) 2 < py_round (?x i) 2" if "2 < annual_production"
  proof -
    have "0.01 < annual_production * 0.005 * 1"
      using that by simp
    moreover have "annual_production * 0.005 * 1 \<le> annual_production * 0.005 * of_int (j - i)"
      using that ji by (intro mult_left_mono) simp_all
    ultimately have "0.01 < annual_production * 0.005 * of_int (j - i)"
      by (rule less_le_trans)
    then have "0.01 < ?x i - ?x j" by (simp only: diff)
    moreover have "py_round (?x j) 2 \<le> ?x j + 1 / (2 * 10 ^ 2)" by (rule py_round_upper)
    moreover have "?x i - 1 / (2 * 10 ^ 2) \<le> py_round (?x i) 2" by (rule py_round_lower)
    ultimately show ?thesis by simp
  qed
  show ?thesis
    using res le lt by (simp add: pi pj)
qed

theorem C7_production_decreases_witness:
  "fetchone_financial_data [example_row] 1 = Some (select_star example_row) \<and>
   potential_14600 1 = Inr 14600 \<and> (0::real) \<le> 14600 \<and> (2::real) < 14600 \<and>
   (\<exists>res. calculate_detailed_financials [example_row] potential_14600 1 25 = Inr res \<and>
      ya_production_kwh (res_yearly_analysis res ! 24)
        \<le> ya_production_kwh (res_yearly_analysis res ! 0) \<and>
      ya_production_kwh (res_yearly_analysis res ! 24)
        < ya_production_kwh (res_yearly_analysis res ! 0))"
proof -
  have p: "potential_14600 1 = Inr 14600" by (simp add: potential_14600_def)
  have f: "fetchone_financial_data [example_row] 1 = Some (select_star example_row)"
    using fetchone_single [of example_row] by (simp add: example_row_def)
  have a: "(1::int) \<le> 1" "(1::int) < 25" "(25::int) \<le> 25" by simp_all
  have c: "nat (25 - 1) = 24" "nat (1 - 1) = 0" by simp_all
  show ?thesis
    using f p C7_production_decreases [where calculate_solar_potential = potential_14600, OF f p a]
    by (simp only: c) auto
qed

subsection \<open>C8: return on investment\<close>



subsection \<open>C9: no financial data\<close>

text \<open>
  C9. For a property that has no row in \<^verbatim>\<open>financial_data\<close>, the projection fails and
  returns no result of any kind, whatever the solar potential and the number of years
  are. The program signals this with a \<^verbatim>\<open>ValueError\<close> whose message is
  \<^verbatim>\<open>Financial data not found for property\<close> (line 196); this is the error that the
  specification calls \<^verbatim>\<open>MissingFinancialDataError\<close>. It is raised before the solar
  potential is asked for.
\<close>

theorem C9_missing_financial_data:
  assumes "\<forall>r \<in> set tbl. col_property_id r \<noteq> pid"
  shows "calculate_detailed_financials tbl calculate_solar_potential pid years =
           Inl (ValueError ''Financial data not found for property'') \<and>
         (\<forall>res. calculate_detailed_financials tbl calculate_solar_potential pid years \<noteq> Inr res)"
proof -
  have "filter (\<lambda>r. col_property_id r = pid) tbl = []"
    using assms by (simp add: filter_empty_conv)
  then show ?thesis
    by (simp add: calculate_detailed_financials_def fetchone_financial_data_def)
qed

theorem C9_missing_financial_data_witness:
  "col_property_id example_row \<noteq> 2 \<and>
   calculate_detailed_financials [example_row] potential_14600 2 25 =
     Inl (ValueError ''Financial data not found for property'')"
proof -
  have h: "\<forall>r \<in> set [example_row]. col_property_id r \<noteq> 2"
    by (simp add: example_row_def)
  have "col_property_id example_row \<noteq> 2"
    by (simp add: example_row_def)
  then show ?thesis
    using C9_missing_financial_data [OF h, of potential_14600 25] by blast
qed

subsection \<open>C10: the break-even year and rounding\<close>




end
